theory Spec2Isabelle
  imports Main "HOL-Library.Sublist"
begin

section \<open>Strings and the string methods used by build.py\<close>

text \<open>
  A Python string is modelled as a \<^typ>\<open>string\<close>, the list of the bytes of its UTF-8
  encoding. The texts that build.py searches for (the five characters of \<^verbatim>\<open>make_id\<close>, the
  hyphen, the placeholder tokens) are ASCII, and an ASCII byte never lies inside the
  encoding of another character, so \<^verbatim>\<open>str.replace\<close> can be modelled on the bytes.

  The case methods \<^verbatim>\<open>str.lower\<close> and \<^verbatim>\<open>str.title\<close> follow the Unicode tables of the
  Python runtime, which are not part of this repository. They are parameters, \<open>lower\<close> and
  \<open>title\<close>, of the functions that call them, and a theorem about such a function holds for
  every value of the parameter. What the two methods do on ASCII text is written down
  below, and is assumed of a parameter only where a theorem says so.
\<close>

definition upper_letters :: string where
  "upper_letters = ''ABCDEFGHIJKLMNOPQRSTUVWXYZ''"

definition lower_letters :: string where
  "lower_letters = ''abcdefghijklmnopqrstuvwxyz''"

text \<open>The ASCII letters and their case mappings; every other byte is kept.\<close>

definition lower_char :: "char \<Rightarrow> char" where
  "lower_char c = (case map_of (zip upper_letters lower_letters) c of Some d \<Rightarrow> d | None \<Rightarrow> c)"

definition upper_char :: "char \<Rightarrow> char" where
  "upper_char c = (case map_of (zip lower_letters upper_letters) c of Some d \<Rightarrow> d | None \<Rightarrow> c)"

definition is_cased :: "char \<Rightarrow> bool" where
  "is_cased c = (c \<in> set upper_letters \<or> c \<in> set lower_letters)"

text \<open>A byte below 128, that is an ASCII character.\<close>

definition is_ascii :: "char \<Rightarrow> bool" where
  "is_ascii c = (\<not> digit7 c)"

text \<open>
  \<^verbatim>\<open>s.lower()\<close> on ASCII text lower-cases the letters A-Z and keeps the rest. The
  predicate says that a function does so on every ASCII text; nothing is said about other
  texts.
\<close>

definition ascii_lowering :: "(string \<Rightarrow> string) \<Rightarrow> bool" where
  "ascii_lowering lower = (\<forall>s. list_all is_ascii s \<longrightarrow> lower s = map lower_char s)"

text \<open>
  \<^verbatim>\<open>s.title()\<close> on ASCII text: a letter is upper-cased when the character before it is
  not a letter (or there is none) and lower-cased otherwise; other characters are kept.
  The flag is "the previous character is a letter".
\<close>

fun title_from :: "bool \<Rightarrow> string \<Rightarrow> string" where
  "title_from prev [] = []"
| "title_from prev (c # cs) =
     (if prev then lower_char c else upper_char c) # title_from (is_cased c) cs"

definition ascii_title :: "string \<Rightarrow> string" where
  "ascii_title s = title_from False s"

definition ascii_titling :: "(string \<Rightarrow> string) \<Rightarrow> bool" where
  "ascii_titling title = (\<forall>s. list_all is_ascii s \<longrightarrow> title s = ascii_title s)"

text \<open>
  \<^verbatim>\<open>s.lower()\<close> on text made of ASCII characters and the Greek letter sigma (capital
  U+03A3, small U+03C3, final U+03C2, two bytes each). A capital sigma becomes the final
  sigma when a cased letter comes before it and none comes after it, case-ignorable
  characters (of ASCII: apostrophe, full stop, colon, circumflex, grave accent) being
  skipped on both sides; otherwise it becomes the small sigma. The flag \<open>before\<close> is "the
  nearest character before that is not case-ignorable is a cased letter".
\<close>

definition sigma_capital :: string where
  "sigma_capital = [CHR 0xCE, CHR 0xA3]"

definition sigma_small :: string where
  "sigma_small = [CHR 0xCF, CHR 0x83]"

definition sigma_final :: string where
  "sigma_final = [CHR 0xCF, CHR 0x82]"

definition case_ignorable :: "char \<Rightarrow> bool" where
  "case_ignorable c = (c \<in> set [CHR 0x27, CHR ''.'', CHR '':'', CHR ''^'', CHR 0x60])"

definition starts_cased :: "string \<Rightarrow> bool" where
  "starts_cased s =
     (case s of
        [] \<Rightarrow> False
      | c # cs \<Rightarrow>
          is_cased c \<or> prefix sigma_capital s \<or> prefix sigma_small s \<or> prefix sigma_final s)"

function sigma_lower_from :: "bool \<Rightarrow> string \<Rightarrow> string" where
  "sigma_lower_from before [] = []"
| "sigma_lower_from before (c # cs) =
     (if prefix sigma_capital (c # cs) then
        (if before \<and> \<not> starts_cased (dropWhile case_ignorable (tl cs))
         then sigma_final else sigma_small) @ sigma_lower_from True (tl cs)
      else if prefix sigma_small (c # cs) \<or> prefix sigma_final (c # cs) then
        take 2 (c # cs) @ sigma_lower_from True (tl cs)
      else
        lower_char c # sigma_lower_from (if case_ignorable c then before else is_cased c) cs)"
  by pat_completeness auto
termination
  by (relation "measure (\<lambda>(before, s). length s)") (auto simp: less_Suc_eq_le)

definition sigma_lower :: "string \<Rightarrow> string" where
  "sigma_lower s = sigma_lower_from False s"

text \<open>
  \<^verbatim>\<open>s.replace(old, new)\<close>: every non-overlapping occurrence of \<open>old\<close>, found from
  the left, is replaced by \<open>new\<close>. With an empty \<open>old\<close>, Python inserts \<open>new\<close> before
  every character and at the end.
\<close>

function replace :: "string \<Rightarrow> string \<Rightarrow> string \<Rightarrow> string" where
  "replace old new [] = (if old = [] then new else [])"
| "replace old new (c # cs) =
     (if old = [] then new @ c # replace old new cs
      else if prefix old (c # cs) then new @ replace old new (drop (length old) (c # cs))
      else c # replace old new cs)"
  by pat_completeness auto
termination
  by (relation "measure (\<lambda>(old, new, s). length s)")
     (auto simp: less_Suc_eq_le neq_Nil_conv)

section \<open>Identifier Normalizer\<close>

text \<open>
  \<^verbatim>\<open>
  def make_id(name):
      return name.lower().replace(" ", "-").replace("(", "").replace(")", "")
                 .replace("/", "-").replace("'", "")
  \<close>
\<close>

definition make_id :: "(string \<Rightarrow> string) \<Rightarrow> string \<Rightarrow> string" where
  "make_id lower name =
     replace [CHR 0x27] ''''
       (replace ''/'' ''-''
         (replace '')'' ''''
           (replace ''('' ''''
             (replace '' '' ''-'' (lower name)))))"

text \<open>
  The normalizer as the specification words it: remove \<open>(\<close> and \<open>)\<close>, replace \<open>/\<close>
  with \<open>-\<close>, remove apostrophes, replace spaces with hyphens, lower-case the whole
  result.
\<close>

definition spec_make_id :: "(string \<Rightarrow> string) \<Rightarrow> string \<Rightarrow> string" where
  "spec_make_id lower name =
     lower
       (replace '' '' ''-''
         (replace [CHR 0x27] ''''
           (replace ''/'' ''-''
             (replace '')'' '''' (replace ''('' '''' name)))))"

text \<open>What the five replacements, in either order, do to one character.\<close>

definition strip_char :: "char \<Rightarrow> string" where
  "strip_char c =
     (if c = CHR '' '' \<or> c = CHR ''/'' then ''-''
      else if c = CHR ''('' \<or> c = CHR '')'' \<or> c = CHR 0x27 then ''''
      else [c])"

section \<open>Input records\<close>

text \<open>
  The five JSON documents, with the fields the code reads. A field the code reads with
  \<^verbatim>\<open>d["k"]\<close> outside any test is a plain field; a field read with \<^verbatim>\<open>d.get("k")\<close> or
  tested with \<^verbatim>\<open>"k" in d\<close> is optional (\<open>None\<close>: the key is absent). Values the code
  only passes through (the hotspot) have the type parameter \<open>'h\<close>.
\<close>

record section_rec =
  heading :: string
  content :: string

record attribution_rec =
  primary :: string
  organisations :: string

record intro_rec =
  title_intro :: string
  subtitle :: string
  hook :: string
  sections :: "section_rec list"
  video_intro :: "string option"
  attribution :: attribution_rec

record 'h stage_rec =
  id_stage :: string
  name_maori :: string
  name_english :: string
  as_stage :: string
  as_state :: string
  reflection_questions :: "string list"
  tools_stage :: "string list"
  hotspot :: 'h

record tool_rec =
  id_tool :: string
  name_tool :: string
  description_tool :: string
  video_tool :: "string option"
  stages_tool :: "string list"
  muscles_tool :: "string list"

record muscle_rec =
  id_muscle :: string
  name_muscle :: string
  description_muscle :: string
  tools_muscle :: "string list"

record dimension_rec =
  id_dimension :: string
  name_dimension :: string
  name_english_dimension :: string
  description_dimension :: string
  muscles_dimension :: "muscle_rec list"

record muscles_rec =
  intro_muscles :: string
  dimensions :: "dimension_rec list"

record item_rec =
  title_item :: "string option"
  name_item :: "string option"
  author_item :: "string option"
  role_item :: "string option"
  description_item :: "string option"
  link_item :: "string option"

record category_rec =
  name_category :: string
  description_category :: string
  items_category :: "item_rec list"

record sources_rec =
  intro_sources :: string
  categories :: "category_rec list"

datatype error = KeyError string

text \<open>
  \<^verbatim>\<open>d.get("k")\<close> used as a condition: the value when the key is present and the
  string is not empty, nothing otherwise.
\<close>

definition truthy :: "string option \<Rightarrow> string option" where
  "truthy v = (case v of None \<Rightarrow> None | Some s \<Rightarrow> if s = [] then None else Some s)"

definition nl :: string where
  "nl = [CHR 0x0A]"

text \<open>The em dash of the source text, as its three UTF-8 bytes.\<close>

definition em_dash :: string where
  "em_dash = [CHR 0xE2, CHR 0x80, CHR 0x94]"

section \<open>Cross-Reference Resolver\<close>

text \<open>
  \<^verbatim>\<open>tools_lookup = {t["id"]: t for t in tools}\<close>: the records are stored one after the
  other, a later record replacing an earlier one under the same key.
\<close>

definition make_lookup :: "('a \<Rightarrow> string) \<Rightarrow> 'a list \<Rightarrow> (string \<rightharpoonup> 'a)" where
  "make_lookup key xs = fold (\<lambda>x m. m(key x \<mapsto> x)) xs Map.empty"

section \<open>Intro Renderer\<close>

definition section_block :: "section_rec \<Rightarrow> string" where
  \<open>section_block section =
     nl @ ''        <div class="intro-block">'' @ nl @
     ''            <h3>'' @ heading section @ ''</h3>'' @ nl @
     ''            <p>'' @ content section @ ''</p>'' @ nl @
     ''        </div>'' @ nl @ ''        ''\<close>

definition video_block :: "string \<Rightarrow> string" where
  \<open>video_block url =
     nl @ ''        <div class="video-embed">'' @ nl @
     ''            <iframe src="'' @ url @ ''" frameborder="0" allowfullscreen></iframe>'' @ nl @
     ''        </div>'' @ nl @ ''        ''\<close>

definition intro_section :: "intro_rec \<Rightarrow> string \<Rightarrow> string \<Rightarrow> string" where
  \<open>intro_section intro sections_html video_html =
     nl @ ''    <section id="introduction" class="section section-intro">'' @ nl @
     ''        <div class="container">'' @ nl @
     ''            <h1>'' @ title_intro intro @ ''</h1>'' @ nl @
     ''            <p class="subtitle">'' @ subtitle intro @ ''</p>'' @ nl @
     ''            <p class="hook">'' @ hook intro @ ''</p>'' @ nl @
     ''            '' @ sections_html @ nl @
     ''            '' @ video_html @ nl @
     ''            <div class="attribution">'' @ nl @
     ''                <p>'' @ primary (attribution intro) @ ''</p>'' @ nl @
     ''                <p>'' @ organisations (attribution intro) @ ''</p>'' @ nl @
     ''            </div>'' @ nl @
     ''        </div>'' @ nl @
     ''    </section>'' @ nl @ ''    ''\<close>

definition build_intro_html :: "intro_rec \<Rightarrow> string" where
  "build_intro_html intro =
     (let sections_html = fold (\<lambda>section acc. acc @ section_block section) (sections intro) [];
          video_html = (case truthy (video_intro intro) of
                          Some url \<Rightarrow> video_block url
                        | None \<Rightarrow> [])
      in intro_section intro sections_html video_html)"

section \<open>Tools Renderer\<close>

text \<open>
  The label of a muscle link is made by \<^verbatim>\<open>str.title\<close>, the parameter \<open>title\<close> of the
  renderer.
\<close>

definition stage_badge :: "'h stage_rec \<Rightarrow> string" where
  \<open>stage_badge stage = ''<span class="badge badge-stage">'' @ name_maori stage @ ''</span> ''\<close>

definition stage_badges :: "(string \<rightharpoonup> 'h stage_rec) \<Rightarrow> string list \<Rightarrow> string" where
  "stage_badges stages_lookup ids =
     fold (\<lambda>stage_id acc.
             case stages_lookup stage_id of
               Some stage \<Rightarrow> acc @ stage_badge stage
             | None \<Rightarrow> acc) ids []"

definition muscle_link :: "(string \<Rightarrow> string) \<Rightarrow> string \<Rightarrow> string" where
  \<open>muscle_link title muscle_id =
     (let muscle_name = title (replace ''-'' '' '' muscle_id)
      in ''<a href="#muscle-'' @ muscle_id @ ''" class="muscle-link">'' @ muscle_name @ ''</a> '')\<close>

definition muscle_links :: "(string \<Rightarrow> string) \<Rightarrow> string list \<Rightarrow> string" where
  "muscle_links title ids = fold (\<lambda>muscle_id acc. acc @ muscle_link title muscle_id) ids []"

definition tool_video_block :: "string \<Rightarrow> string" where
  \<open>tool_video_block url =
     nl @ ''            <div class="video-embed">'' @ nl @
     ''                <iframe src="'' @ url @ ''" frameborder="0" allowfullscreen></iframe>'' @ nl @
     ''            </div>'' @ nl @ ''            ''\<close>

definition tool_block :: "tool_rec \<Rightarrow> string \<Rightarrow> string \<Rightarrow> string \<Rightarrow> string" where
  \<open>tool_block tool video_html badges links =
     nl @ ''        <div id="tool-'' @ id_tool tool @ ''" class="tool-entry">'' @ nl @
     ''            <h3>'' @ name_tool tool @ ''</h3>'' @ nl @
     ''            <p class="description">'' @ description_tool tool @ ''</p>'' @ nl @
     ''            '' @ video_html @ nl @
     ''            <div class="meta">'' @ nl @
     ''                <div class="stages">'' @ nl @
     ''                    <span class="meta-label">Used in:</span> '' @ badges @ nl @
     ''                </div>'' @ nl @
     ''                <div class="muscles">'' @ nl @
     ''                    <span class="meta-label">Develops:</span> '' @ links @ nl @
     ''                </div>'' @ nl @
     ''            </div>'' @ nl @
     ''        </div>'' @ nl @ ''        ''\<close>

text \<open>One pass of the loop over the tools: the text appended for one Tool.\<close>

definition tool_entry ::
  "(string \<Rightarrow> string) \<Rightarrow> (string \<rightharpoonup> 'h stage_rec) \<Rightarrow> tool_rec \<Rightarrow> string" where
  "tool_entry title stages_lookup tool =
     (let badges = stage_badges stages_lookup (stages_tool tool);
          links = muscle_links title (muscles_tool tool);
          video_html = (case truthy (video_tool tool) of
                          Some url \<Rightarrow> tool_video_block url
                        | None \<Rightarrow> [])
      in tool_block tool video_html badges links)"

definition tools_section :: "string \<Rightarrow> string" where
  \<open>tools_section tools_html =
     nl @ ''    <section id="tools" class="section section-tools">'' @ nl @
     ''        <div class="container">'' @ nl @
     ''            <h2>Tools</h2>'' @ nl @
     ''            <p class="section-intro">Processes and methods that help navigate each stage. Click a muscle name to see what it means.</p>'' @ nl @
     ''            <div class="tools-list">'' @ nl @
     ''                '' @ tools_html @ nl @
     ''            </div>'' @ nl @
     ''        </div>'' @ nl @
     ''    </section>'' @ nl @ ''    ''\<close>

definition build_tools_html ::
  "(string \<Rightarrow> string) \<Rightarrow> tool_rec list \<Rightarrow> (string \<rightharpoonup> 'h stage_rec) \<Rightarrow> string" where
  "build_tools_html title tools stages_lookup =
     tools_section (fold (\<lambda>tool acc. acc @ tool_entry title stages_lookup tool) tools [])"

section \<open>Muscles Renderer\<close>

definition tool_link :: "string \<Rightarrow> tool_rec \<Rightarrow> string" where
  \<open>tool_link tool_id tool =
     ''<a href="#tool-'' @ tool_id @ ''" class="tool-link">'' @ name_tool tool @ ''</a> ''\<close>

definition no_tools :: string where
  \<open>no_tools = ''<span class="no-tools">No specific tools mapped</span>''\<close>

text \<open>
  The \<^verbatim>\<open>if muscle["tools"]:\<close> test is the truth value of a list: it holds when the list
  is not empty.
\<close>

definition tool_links :: "(string \<rightharpoonup> tool_rec) \<Rightarrow> string list \<Rightarrow> string" where
  "tool_links tools_lookup ids =
     (if ids \<noteq> [] then
        fold (\<lambda>tool_id acc.
                case tools_lookup tool_id of
                  Some tool \<Rightarrow> acc @ tool_link tool_id tool
                | None \<Rightarrow> acc) ids []
      else no_tools)"

definition muscle_block :: "muscle_rec \<Rightarrow> string \<Rightarrow> string" where
  \<open>muscle_block muscle links =
     nl @ ''            <div id="muscle-'' @ id_muscle muscle @ ''" class="muscle-entry">'' @ nl @
     ''                <h4>'' @ name_muscle muscle @ ''</h4>'' @ nl @
     ''                <p class="description">'' @ description_muscle muscle @ ''</p>'' @ nl @
     ''                <div class="meta">'' @ nl @
     ''                    <span class="meta-label">Developed by:</span> '' @ links @ nl @
     ''                </div>'' @ nl @
     ''            </div>'' @ nl @ ''            ''\<close>

definition muscle_entry :: "(string \<rightharpoonup> tool_rec) \<Rightarrow> muscle_rec \<Rightarrow> string" where
  "muscle_entry tools_lookup muscle =
     muscle_block muscle (tool_links tools_lookup (tools_muscle muscle))"

definition dimension_block :: "dimension_rec \<Rightarrow> string \<Rightarrow> string" where
  \<open>dimension_block dimension muscles_html =
     nl @ ''        <div class="dimension" id="dimension-'' @ id_dimension dimension @ ''">'' @ nl @
     ''            <h3>'' @ name_dimension dimension @ '' <span class="dimension-english">('' @
       name_english_dimension dimension @ '')</span></h3>'' @ nl @
     ''            <p class="dimension-description">'' @ description_dimension dimension @ ''</p>'' @ nl @
     ''            <div class="muscles-list">'' @ nl @
     ''                '' @ muscles_html @ nl @
     ''            </div>'' @ nl @
     ''        </div>'' @ nl @ ''        ''\<close>

definition dimension_entry :: "(string \<rightharpoonup> tool_rec) \<Rightarrow> dimension_rec \<Rightarrow> string" where
  "dimension_entry tools_lookup dimension =
     dimension_block dimension
       (fold (\<lambda>muscle acc. acc @ muscle_entry tools_lookup muscle) (muscles_dimension dimension) [])"

definition muscles_section :: "muscles_rec \<Rightarrow> string \<Rightarrow> string" where
  \<open>muscles_section muscles_data dimensions_html =
     nl @ ''    <section id="muscles" class="section section-muscles">'' @ nl @
     ''        <div class="container">'' @ nl @
     ''            <h2>Muscles</h2>'' @ nl @
     ''            <p class="section-intro">'' @ intro_muscles muscles_data @ ''</p>'' @ nl @
     ''            <div class="dimensions">'' @ nl @
     ''                '' @ dimensions_html @ nl @
     ''            </div>'' @ nl @
     ''        </div>'' @ nl @
     ''    </section>'' @ nl @ ''    ''\<close>

definition build_muscles_html :: "muscles_rec \<Rightarrow> (string \<rightharpoonup> tool_rec) \<Rightarrow> string" where
  "build_muscles_html muscles_data tools_lookup =
     muscles_section muscles_data
       (fold (\<lambda>dimension acc. acc @ dimension_entry tools_lookup dimension)
          (dimensions muscles_data) [])"

section \<open>Sources Renderer\<close>

text \<open>
  The display name and the detail of an Item. An Item with a \<^verbatim>\<open>title\<close> key is a
  reading: its detail is the author, when there is one. Any other Item is named by its
  \<^verbatim>\<open>name\<close> key (a missing key raises \<^verbatim>\<open>KeyError\<close>) and its detail is the first of
  author, role and description that is there.
\<close>

definition name_and_detail :: "item_rec \<Rightarrow> error + string \<times> string" where
  "name_and_detail item =
     (case title_item item of
        Some t \<Rightarrow>
          Inr (t, case truthy (author_item item) of
                    Some a \<Rightarrow> '' '' @ em_dash @ '' '' @ a
                  | None \<Rightarrow> [])
      | None \<Rightarrow>
          (case name_item item of
             None \<Rightarrow> Inl (KeyError ''name'')
           | Some n \<Rightarrow>
               Inr (n, case truthy (author_item item) of
                         Some a \<Rightarrow> '' '' @ em_dash @ '' '' @ a
                       | None \<Rightarrow>
                          (case truthy (role_item item) of
                             Some r \<Rightarrow> '' '' @ em_dash @ '' '' @ r
                           | None \<Rightarrow>
                              (case truthy (description_item item) of
                                 Some d \<Rightarrow> '' '' @ em_dash @ '' '' @ d
                               | None \<Rightarrow> [])))))"

definition item_li :: "item_rec \<Rightarrow> error + string" where
  \<open>item_li item =
     (case name_and_detail item of
        Inl e \<Rightarrow> Inl e
      | Inr (name, detail) \<Rightarrow>
          (case truthy (link_item item) of
             Some link \<Rightarrow>
               Inr (''<li><a href="'' @ link @ ''" target="_blank">'' @ name @ ''</a>'' @ detail @ ''</li>'')
           | None \<Rightarrow> Inr (''<li>'' @ name @ detail @ ''</li>'')))\<close>

text \<open>The loop over the Items of a Category; the first failure ends it.\<close>

fun items_loop :: "item_rec list \<Rightarrow> string \<Rightarrow> error + string" where
  "items_loop [] items_html = Inr items_html"
| "items_loop (item # items) items_html =
     (case item_li item of
        Inl e \<Rightarrow> Inl e
      | Inr li \<Rightarrow> items_loop items (items_html @ li))"

definition category_block :: "category_rec \<Rightarrow> string \<Rightarrow> string" where
  \<open>category_block category items_html =
     nl @ ''        <div class="source-category">'' @ nl @
     ''            <h3>'' @ name_category category @ ''</h3>'' @ nl @
     ''            <p class="category-description">'' @ description_category category @ ''</p>'' @ nl @
     ''            <ul>'' @ nl @
     ''                '' @ items_html @ nl @
     ''            </ul>'' @ nl @
     ''        </div>'' @ nl @ ''        ''\<close>

definition category_entry :: "category_rec \<Rightarrow> error + string" where
  "category_entry category =
     (case items_loop (items_category category) [] of
        Inl e \<Rightarrow> Inl e
      | Inr items_html \<Rightarrow> Inr (category_block category items_html))"

fun categories_loop :: "category_rec list \<Rightarrow> string \<Rightarrow> error + string" where
  "categories_loop [] categories_html = Inr categories_html"
| "categories_loop (category # cats) categories_html =
     (case category_entry category of
        Inl e \<Rightarrow> Inl e
      | Inr block \<Rightarrow> categories_loop cats (categories_html @ block))"

definition sources_section :: "sources_rec \<Rightarrow> string \<Rightarrow> string" where
  \<open>sources_section sources categories_html =
     nl @ ''    <section id="sources" class="section section-sources">'' @ nl @
     ''        <div class="container">'' @ nl @
     ''            <h2>Mycorrhizal Network</h2>'' @ nl @
     ''            <p class="section-intro">'' @ intro_sources sources @ ''</p>'' @ nl @
     ''            <div class="sources-grid">'' @ nl @
     ''                '' @ categories_html @ nl @
     ''            </div>'' @ nl @
     ''        </div>'' @ nl @
     ''    </section>'' @ nl @ ''    ''\<close>

definition build_sources_html :: "sources_rec \<Rightarrow> error + string" where
  "build_sources_html sources =
     (case categories_loop (categories sources) [] of
        Inl e \<Rightarrow> Inl e
      | Inr categories_html \<Rightarrow> Inr (sources_section sources categories_html))"

section \<open>Stage Overlay Projector\<close>

text \<open>
  The value handed to \<^verbatim>\<open>json.dumps\<close>: strings, lists, dictionaries with their keys
  in insertion order, and values passed through from the input.
\<close>

datatype 'h json =
    JString string
  | JList "'h json list"
  | JDict "(string \<times> 'h json) list"
  | JRaw 'h

text \<open>
  \<^verbatim>\<open>[{"id": t, "name": tools_lookup[t]["name"]} for t in stage["tools"] if t in tools_lookup]\<close>
\<close>

definition stage_tool_pairs :: "(string \<rightharpoonup> tool_rec) \<Rightarrow> string list \<Rightarrow> 'h json list" where
  "stage_tool_pairs tools_lookup ids =
     concat (map (\<lambda>t. case tools_lookup t of
                          Some tool \<Rightarrow> [JDict [(''id'', JString t), (''name'', JString (name_tool tool))]]
                        | None \<Rightarrow> []) ids)"

definition stage_record :: "(string \<rightharpoonup> tool_rec) \<Rightarrow> 'h stage_rec \<Rightarrow> 'h json" where
  "stage_record tools_lookup stage =
     JDict [(''id'', JString (id_stage stage)),
            (''name_maori'', JString (name_maori stage)),
            (''name_english'', JString (name_english stage)),
            (''as_stage'', JString (as_stage stage)),
            (''as_state'', JString (as_state stage)),
            (''reflection_questions'', JList (map JString (reflection_questions stage))),
            (''tools'', JList (stage_tool_pairs tools_lookup (tools_stage stage))),
            (''hotspot'', JRaw (hotspot stage))]"

definition stage_data :: "'h stage_rec list \<Rightarrow> (string \<rightharpoonup> tool_rec) \<Rightarrow> 'h json list" where
  "stage_data stages tools_lookup =
     fold (\<lambda>stage acc. acc @ [stage_record tools_lookup stage]) stages []"

text \<open>
  \<^verbatim>\<open>json.dumps(stage_data, indent=2)\<close> is the library's serializer; it is the parameter
  \<open>dumps\<close>.
\<close>

definition build_stage_overlay_data ::
  "('h json \<Rightarrow> string) \<Rightarrow> 'h stage_rec list \<Rightarrow> (string \<rightharpoonup> tool_rec) \<Rightarrow> string" where
  "build_stage_overlay_data dumps stages tools_lookup =
     dumps (JList (stage_data stages tools_lookup))"

section \<open>Assembler\<close>

text \<open>
  \<^verbatim>\<open>build_html\<close> reads the template from a file; here the text of the template is an
  argument. A failure of the Sources Renderer ends the build before the template is read.
\<close>

definition assemble :: "string \<Rightarrow> string \<Rightarrow> string \<Rightarrow> string \<Rightarrow> string \<Rightarrow> string \<Rightarrow> string" where
  "assemble template intro_html tools_html muscles_html sources_html stage_data_js =
     replace ''{{STAGE_DATA}}'' stage_data_js
       (replace ''{{SOURCES_SECTION}}'' sources_html
         (replace ''{{MUSCLES_SECTION}}'' muscles_html
           (replace ''{{TOOLS_SECTION}}'' tools_html
             (replace ''{{INTRO_SECTION}}'' intro_html template))))"

definition build_html ::
  "(string \<Rightarrow> string) \<Rightarrow> ('h json \<Rightarrow> string) \<Rightarrow> string \<Rightarrow> intro_rec \<Rightarrow> 'h stage_rec list \<Rightarrow> tool_rec list \<Rightarrow>
     muscles_rec \<Rightarrow> sources_rec \<Rightarrow> error + string" where
  "build_html title dumps template intro stages tools muscles sources =
     (let tools_lookup = make_lookup id_tool tools;
          stages_lookup = make_lookup id_stage stages;
          intro_html = build_intro_html intro;
          tools_html = build_tools_html title tools stages_lookup;
          muscles_html = build_muscles_html muscles tools_lookup
      in case build_sources_html sources of
           Inl e \<Rightarrow> Inl e
         | Inr sources_html \<Rightarrow>
             (let stage_data_js = build_stage_overlay_data dumps stages tools_lookup
              in Inr (assemble template intro_html tools_html muscles_html sources_html
                        stage_data_js)))"

section \<open>Cutting a document at a token\<close>

text \<open>
  \<^verbatim>\<open>sep.join(ps)\<close>, and the pieces a document falls into when it is cut at the
  occurrences of a token, found from the left and not overlapping.
\<close>

fun join :: "string \<Rightarrow> string list \<Rightarrow> string" where
  "join sep [] = []"
| "join sep [p] = p"
| "join sep (p # q # ps) = p @ sep @ join sep (q # ps)"

function pieces :: "string \<Rightarrow> string \<Rightarrow> string list" where
  "pieces tok [] = [[]]"
| "pieces tok (c # cs) =
     (if tok \<noteq> [] \<and> prefix tok (c # cs) then [] # pieces tok (drop (length tok) (c # cs))
      else (case pieces tok cs of
              p # ps \<Rightarrow> (c # p) # ps
            | [] \<Rightarrow> [[c]]))"
  by pat_completeness auto
termination
  by (relation "measure (\<lambda>(tok, s). length s)")
     (auto simp: less_Suc_eq_le neq_Nil_conv)

section \<open>The label of a muscle link as the specification words it\<close>

text \<open>
  The id with its hyphens replaced by spaces and each word capitalized: the words are what
  the hyphens separate, and a word is capitalized by putting its first character in upper
  case. It is written for ASCII ids, the upper case being that of the ASCII letters.
\<close>

definition capitalize_word :: "string \<Rightarrow> string" where
  "capitalize_word w = (case w of [] \<Rightarrow> [] | c # cs \<Rightarrow> upper_char c # cs)"

definition spec_label :: "string \<Rightarrow> string" where
  "spec_label muscle_id = join '' '' (map capitalize_word (pieces ''-'' muscle_id))"

section \<open>The detail of a Source Item as the specification words it\<close>

text \<open>
  The first of author, role and description that is there, whatever key gives the display
  name.
\<close>

definition spec_detail :: "item_rec \<Rightarrow> string" where
  "spec_detail item =
     (case truthy (author_item item) of
        Some a \<Rightarrow> '' '' @ em_dash @ '' '' @ a
      | None \<Rightarrow>
          (case truthy (role_item item) of
             Some r \<Rightarrow> '' '' @ em_dash @ '' '' @ r
           | None \<Rightarrow>
               (case truthy (description_item item) of
                  Some d \<Rightarrow> '' '' @ em_dash @ '' '' @ d
                | None \<Rightarrow> [])))"

section \<open>Example inputs\<close>

definition example_stage :: "unit stage_rec" where
  "example_stage =
     \<lparr>id_stage = ''s1'', name_maori = ''Te Kore'', name_english = ''The Void'',
      as_stage = ''a'', as_state = ''b'', reflection_questions = [''q?''],
      tools_stage = [''t1'', ''t2''], hotspot = ()\<rparr>"

definition example_tool :: tool_rec where
  "example_tool =
     \<lparr>id_tool = ''t1'', name_tool = ''Hammer'', description_tool = ''d'',
      video_tool = None, stages_tool = [''s1''], muscles_tool = [''systems-thinking'']\<rparr>"





definition example_reading :: item_rec where
  "example_reading =
     \<lparr>title_item = Some ''T'', name_item = None, author_item = None,
      role_item = Some ''R'', description_item = None, link_item = None\<rparr>"

definition example_person :: item_rec where
  "example_person =
     \<lparr>title_item = None, name_item = Some ''N'', author_item = None,
      role_item = Some ''R'', description_item = Some ''D'', link_item = None\<rparr>"



definition example_intro :: intro_rec where
  "example_intro =
     \<lparr>title_intro = ''{{TOOLS_SECTION}}'', subtitle = ''S'', hook = ''H'', sections = [],
      video_intro = None, attribution = \<lparr>primary = ''P'', organisations = ''O''\<rparr>\<rparr>"

definition example_muscles :: muscles_rec where
  "example_muscles = \<lparr>intro_muscles = ''M'', dimensions = []\<rparr>"

definition example_no_sources :: sources_rec where
  "example_no_sources = \<lparr>intro_sources = ''si'', categories = []\<rparr>"

definition example_dumps :: "unit json \<Rightarrow> string" where
  "example_dumps j = ''[]''"

definition no_stages :: "unit stage_rec list" where
  "no_stages = []"

section \<open>Properties of the string methods\<close>

lemma replace_single:
  "replace [a] new s = concat (map (\<lambda>c. if c = a then new else [c]) s)"
  by (induction s) auto

lemma concat_map_concat_map:
  "concat (map g (concat (map f s))) = concat (map (\<lambda>c. concat (map g (f c))) s)"
  by (induction s) simp_all

lemma lower_char_special:
  "lower_char c = CHR '' '' \<longleftrightarrow> c = CHR '' ''"
  "lower_char c = CHR ''/'' \<longleftrightarrow> c = CHR ''/''"
  "lower_char c = CHR ''('' \<longleftrightarrow> c = CHR ''(''"
  "lower_char c = CHR '')'' \<longleftrightarrow> c = CHR '')''"
  "lower_char c = CHR 0x27 \<longleftrightarrow> c = CHR 0x27"
  by (simp_all add: lower_char_def upper_letters_def lower_letters_def)

lemma lower_char_fixed:
  "lower_char CHR '' '' = CHR '' ''"
  "lower_char CHR ''/'' = CHR ''/''"
  "lower_char CHR ''('' = CHR ''(''"
  "lower_char CHR '')'' = CHR '')''"
  "lower_char CHR 0x27 = CHR 0x27"
  "lower_char CHR ''-'' = CHR ''-''"
  by (simp_all add: lower_char_def upper_letters_def lower_letters_def)

text \<open>The five replacements in the order of the code, and in the order of the specification.\<close>

lemma code_order_charwise:
  "replace [CHR 0x27] ''''
     (replace ''/'' ''-'' (replace '')'' '''' (replace ''('' '''' (replace '' '' ''-'' s))))
   = concat (map strip_char s)"
proof -
  have "replace [CHR 0x27] ''''
     (replace ''/'' ''-'' (replace '')'' '''' (replace ''('' '''' (replace '' '' ''-'' s))))
    = concat (map (\<lambda>c. concat (map (\<lambda>c. if c = CHR 0x27 then '''' else [c])
        (concat (map (\<lambda>c. if c = CHR ''/'' then ''-'' else [c])
          (concat (map (\<lambda>c. if c = CHR '')'' then '''' else [c])
            (concat (map (\<lambda>c. if c = CHR ''('' then '''' else [c])
              (if c = CHR '' '' then ''-'' else [c]))))))))) s)"
    unfolding replace_single concat_map_concat_map by simp
  also have "\<dots> = concat (map strip_char s)"
    by (rule arg_cong [where f = concat], rule map_cong [OF refl])
       (simp add: strip_char_def)
  finally show ?thesis .
qed

lemma spec_order_charwise:
  "replace '' '' ''-''
     (replace [CHR 0x27] '''' (replace ''/'' ''-'' (replace '')'' '''' (replace ''('' '''' s))))
   = concat (map strip_char s)"
proof -
  have "replace '' '' ''-''
     (replace [CHR 0x27] '''' (replace ''/'' ''-'' (replace '')'' '''' (replace ''('' '''' s))))
    = concat (map (\<lambda>c. concat (map (\<lambda>c. if c = CHR '' '' then ''-'' else [c])
        (concat (map (\<lambda>c. if c = CHR 0x27 then '''' else [c])
          (concat (map (\<lambda>c. if c = CHR ''/'' then ''-'' else [c])
            (concat (map (\<lambda>c. if c = CHR '')'' then '''' else [c])
              (if c = CHR ''('' then '''' else [c]))))))))) s)"
    unfolding replace_single concat_map_concat_map by simp
  also have "\<dots> = concat (map strip_char s)"
    by (rule arg_cong [where f = concat], rule map_cong [OF refl])
       (simp add: strip_char_def)
  finally show ?thesis .
qed

lemma make_id_charwise: "make_id lower name = concat (map strip_char (lower name))"
  by (simp only: make_id_def code_order_charwise)

lemma spec_make_id_charwise: "spec_make_id lower name = lower (concat (map strip_char name))"
  by (simp only: spec_make_id_def spec_order_charwise)

lemma strip_char_ascii: "is_ascii c \<Longrightarrow> list_all is_ascii (strip_char c)"
  by (simp add: strip_char_def is_ascii_def)

lemma strip_ascii: "list_all is_ascii s \<Longrightarrow> list_all is_ascii (concat (map strip_char s))"
  by (induction s) (simp_all add: strip_char_ascii)

lemma strip_lower_char: "strip_char (lower_char c) = map lower_char (strip_char c)"
  by (simp add: strip_char_def lower_char_special lower_char_fixed)

lemma strip_lower_commute:
  "concat (map strip_char (map lower_char s)) = map lower_char (concat (map strip_char s))"
  by (induction s) (simp_all add: strip_lower_char)

lemma make_id_on_ascii:
  assumes "ascii_lowering lower" and "list_all is_ascii name"
  shows "make_id lower name = concat (map strip_char (map lower_char name))"
    and "make_id lower name = spec_make_id lower name"
proof -
  have l: "lower name = map lower_char name"
    using assms by (simp add: ascii_lowering_def)
  have e: "lower (concat (map strip_char name)) = map lower_char (concat (map strip_char name))"
    using assms strip_ascii [of name] by (simp add: ascii_lowering_def)
  show "make_id lower name = spec_make_id lower name"
    unfolding make_id_charwise spec_make_id_charwise l e strip_lower_commute by (rule refl)
  show "make_id lower name = concat (map strip_char (map lower_char name))"
    unfolding make_id_charwise l by (rule refl)
qed

lemma sigma_not_ascii:
  "is_ascii c \<Longrightarrow>
   \<not> prefix sigma_capital (c # cs) \<and> \<not> prefix sigma_small (c # cs) \<and> \<not> prefix sigma_final (c # cs)"
  by (auto simp: is_ascii_def sigma_capital_def sigma_small_def sigma_final_def)

lemma sigma_lower_from_ascii:
  "list_all is_ascii s \<Longrightarrow> sigma_lower_from before s = map lower_char s"
  by (induction s arbitrary: before) (simp_all add: sigma_not_ascii)

lemma ascii_lowering_sigma_lower: "ascii_lowering sigma_lower"
  by (simp add: ascii_lowering_def sigma_lower_def sigma_lower_from_ascii)

section \<open>Properties of the loops\<close>

lemma fold_append_concat:
  "fold (\<lambda>x acc. acc @ f x) xs acc = acc @ concat (map f xs)"
  by (induction xs arbitrary: acc) simp_all

lemma fold_lookup_concat:
  "fold (\<lambda>k acc. case lk k of Some v \<Rightarrow> acc @ g k v | None \<Rightarrow> acc) ks acc
     = acc @ concat (map (\<lambda>k. g k (the (lk k))) (filter (\<lambda>k. lk k \<noteq> None) ks))"
  by (induction ks arbitrary: acc) auto

lemma stage_badges_concat:
  "stage_badges lk ids
     = concat (map (\<lambda>s. stage_badge (the (lk s))) (filter (\<lambda>s. lk s \<noteq> None) ids))"
  unfolding stage_badges_def
  using fold_lookup_concat [where lk = lk and g = "\<lambda>k v. stage_badge v" and ks = ids and acc = "[]"]
  by simp

lemma muscle_links_concat: "muscle_links title ids = concat (map (muscle_link title) ids)"
  unfolding muscle_links_def by (simp add: fold_append_concat)

lemma tools_loop_concat:
  "fold (\<lambda>tool acc. acc @ tool_entry title lk tool) tools []
     = concat (map (tool_entry title lk) tools)"
  by (simp add: fold_append_concat)

section \<open>Properties of the title method\<close>

lemma space_not_cased: "\<not> is_cased CHR '' ''"
  by (simp add: is_cased_def upper_letters_def lower_letters_def)

lemma upper_char_space: "upper_char CHR '' '' = CHR '' ''"
  by (simp add: upper_char_def upper_letters_def lower_letters_def)

lemma title_from_space:
  "title_from p (xs @ CHR '' '' # ys) = title_from p xs @ CHR '' '' # title_from False ys"
  by (induction xs arbitrary: p)
     (simp_all add: space_not_cased upper_char_space lower_char_fixed)

lemma hyphen_not_cased: "is_cased c \<Longrightarrow> c \<noteq> CHR ''-''"
  by (auto simp: is_cased_def upper_letters_def lower_letters_def)

lemma cased_is_ascii: "is_cased c \<Longrightarrow> is_ascii c"
  by (auto simp: is_cased_def is_ascii_def upper_letters_def lower_letters_def)

lemma title_from_cased: "list_all is_cased w \<Longrightarrow> title_from True w = map lower_char w"
  by (induction w) simp_all

lemma title_from_length: "length (title_from p s) = length s"
  by (induction s arbitrary: p) simp_all

lemma title_from_nth:
  "i < length s \<Longrightarrow>
   title_from p s ! i
     = (if (if i = 0 then p else is_cased (s ! (i - 1))) then lower_char (s ! i)
        else upper_char (s ! i))"
proof (induction s arbitrary: p i)
  case Nil
  then show ?case by simp
next
  case (Cons c cs)
  show ?case
  proof (cases i)
    case 0
    then show ?thesis by simp
  next
    case (Suc j)
    then have "j < length cs" using Cons.prems by simp
    then show ?thesis
      using Cons.IH [of j "is_cased c"] Suc by (cases j) simp_all
  qed
qed

lemma replace_hyphen:
  "replace ''-'' '' '' s = map (\<lambda>c. if c = CHR ''-'' then CHR '' '' else c) s"
  by (induction s) auto

lemma replace_hyphen_ascii: "list_all is_ascii s \<Longrightarrow> list_all is_ascii (replace ''-'' '' '' s)"
  unfolding replace_hyphen by (induction s) (simp_all add: is_ascii_def)

lemma label_on_ascii:
  "ascii_titling title \<Longrightarrow> list_all is_ascii m \<Longrightarrow>
   title (replace ''-'' '' '' m)
     = title_from False (map (\<lambda>c. if c = CHR ''-'' then CHR '' '' else c) m)"
  using replace_hyphen_ascii [of m]
  by (simp add: ascii_titling_def ascii_title_def replace_hyphen)

lemma label_nth:
  assumes "ascii_titling title" and "list_all is_ascii m" and "i < length m"
  shows "title (replace ''-'' '' '' m) ! i
     = (if m ! i = CHR ''-'' then CHR '' ''
        else if 0 < i \<and> is_cased (m ! (i - 1)) then lower_char (m ! i)
        else upper_char (m ! i))"
proof -
  let ?r = "map (\<lambda>c. if c = CHR ''-'' then CHR '' '' else c) m"
  have prev: "is_cased (?r ! (i - 1)) = is_cased (m ! (i - 1))"
    using assms(3) by (auto simp: space_not_cased dest: hyphen_not_cased)
  have "title (replace ''-'' '' '' m) ! i
      = (if (if i = 0 then False else is_cased (?r ! (i - 1))) then lower_char (?r ! i)
         else upper_char (?r ! i))"
    using assms by (simp add: label_on_ascii title_from_nth)
  then show ?thesis
    using assms(3) prev by (auto simp: upper_char_space lower_char_fixed)
qed

section \<open>Properties of the Muscles Renderer\<close>




section \<open>Properties of the Stage Overlay Projector\<close>

lemma stage_tool_pairs_resolved:
  "stage_tool_pairs lk ids
     = map (\<lambda>t. JDict [(''id'', JString t), (''name'', JString (name_tool (the (lk t))))])
         (filter (\<lambda>t. lk t \<noteq> None) ids)"
  unfolding stage_tool_pairs_def by (induction ids) auto

lemma stage_data_map: "stage_data stages lk = map (stage_record lk) stages"
proof -
  have "fold (\<lambda>stage acc. acc @ [stage_record lk stage]) stages acc
          = acc @ map (stage_record lk) stages" for acc
    by (induction stages arbitrary: acc) simp_all
  then show ?thesis by (simp add: stage_data_def)
qed

section \<open>Properties of the lookups\<close>



lemma build_html_unfold:
  "build_html title dumps template intro stages tools muscles sources
     = (case build_sources_html sources of
          Inl e \<Rightarrow> Inl e
        | Inr sources_html \<Rightarrow>
            Inr (assemble template (build_intro_html intro)
                   (build_tools_html title tools (make_lookup id_stage stages))
                   (build_muscles_html muscles (make_lookup id_tool tools))
                   sources_html
                   (build_stage_overlay_data dumps stages (make_lookup id_tool tools))))"
  by (simp add: build_html_def Let_def split: sum.splits)

section \<open>Properties of the Sources Renderer\<close>



section \<open>Properties of the substitution\<close>

lemma pieces_not_Nil: "pieces tok s \<noteq> []"
  by (induction tok s rule: pieces.induct) (auto split: list.splits)

lemma join_Cons_char: "join sep ((c # p) # ps) = c # join sep (p # ps)"
  by (cases ps) simp_all

lemma prefix_drop: "prefix tok s \<Longrightarrow> tok @ drop (length tok) s = s"
  by (auto simp: prefix_def)

lemma join_pieces: "tok \<noteq> [] \<Longrightarrow> join tok (pieces tok s) = s"
proof (induction tok s rule: pieces.induct)
  case (1 tok)
  then show ?case by simp
next
  case (2 tok c cs)
  show ?case
  proof (cases "prefix tok (c # cs)")
    case True
    obtain q qs where q: "pieces tok (drop (length tok) (c # cs)) = q # qs"
      using pieces_not_Nil [of tok "drop (length tok) (c # cs)"]
      by (cases "pieces tok (drop (length tok) (c # cs))") auto
    have "join tok (pieces tok (drop (length tok) (c # cs))) = drop (length tok) (c # cs)"
      using 2 True by simp
    then have "join tok ([] # q # qs) = tok @ drop (length tok) (c # cs)"
      using q by simp
    then show ?thesis using True 2(3) q prefix_drop [OF True] by simp
  next
    case False
    obtain p ps where p: "pieces tok cs = p # ps"
      using pieces_not_Nil [of tok cs] by (cases "pieces tok cs") auto
    have "join tok (pieces tok cs) = cs" using 2 False by simp
    then show ?thesis using False p join_Cons_char [of tok c p ps] by simp
  qed
qed

lemma replace_join_pieces: "tok \<noteq> [] \<Longrightarrow> replace tok new s = join new (pieces tok s)"
proof (induction tok s rule: pieces.induct)
  case (1 tok)
  then show ?case by simp
next
  case (2 tok c cs)
  show ?case
  proof (cases "prefix tok (c # cs)")
    case True
    obtain q qs where q: "pieces tok (drop (length tok) (c # cs)) = q # qs"
      using pieces_not_Nil [of tok "drop (length tok) (c # cs)"]
      by (cases "pieces tok (drop (length tok) (c # cs))") auto
    have "replace tok new (drop (length tok) (c # cs)) = join new (pieces tok (drop (length tok) (c # cs)))"
      using 2 True by simp
    then show ?thesis using True 2(3) q by simp
  next
    case False
    obtain p ps where p: "pieces tok cs = p # ps"
      using pieces_not_Nil [of tok cs] by (cases "pieces tok cs") auto
    have "replace tok new cs = join new (pieces tok cs)" using 2 False by simp
    then show ?thesis using False 2(3) p join_Cons_char [of new c p ps] by simp
  qed
qed

lemma hd_pieces_prefix: "tok \<noteq> [] \<Longrightarrow> pieces tok s = p # ps \<Longrightarrow> prefix p s"
proof -
  assume a: "tok \<noteq> []" "pieces tok s = p # ps"
  have "join tok (p # ps) = s" using join_pieces [OF a(1), of s] a(2) by simp
  then show ?thesis by (cases ps) auto
qed

lemma pieces_clean: "tok \<noteq> [] \<Longrightarrow> list_all (\<lambda>p. \<not> sublist tok p) (pieces tok s)"
proof (induction tok s rule: pieces.induct)
  case (1 tok)
  then show ?case by simp
next
  case (2 tok c cs)
  show ?case
  proof (cases "prefix tok (c # cs)")
    case True
    then show ?thesis using 2 by simp
  next
    case False
    obtain p ps where p: "pieces tok cs = p # ps"
      using pieces_not_Nil [of tok cs] by (cases "pieces tok cs") auto
    have ih: "list_all (\<lambda>p. \<not> sublist tok p) (p # ps)" using 2 False p by simp
    have "prefix p cs" using hd_pieces_prefix [OF 2(3) p] .
    then have "\<not> prefix tok (c # p)" using False
      by (meson Cons_prefix_Cons prefix_order.trans)
    then have "\<not> sublist tok (c # p)" using ih by (simp add: sublist_Cons_right)
    then show ?thesis using False p ih by simp
  qed
qed

lemma replace_absent: "tok \<noteq> [] \<Longrightarrow> \<not> sublist tok s \<Longrightarrow> replace tok new s = s"
proof (induction s)
  case Nil
  then show ?case by simp
next
  case (Cons c cs)
  then show ?case by (auto simp: sublist_Cons_right)
qed

lemma replace_at_token:
  "tok \<noteq> [] \<Longrightarrow> hd tok \<notin> set a \<Longrightarrow> replace tok new (a @ tok @ b) = a @ new @ replace tok new b"
proof (induction a)
  case Nil
  then show ?case by (cases tok) auto
next
  case (Cons x a)
  then have "\<not> prefix tok (x # a @ tok @ b)" by (cases tok) auto
  then show ?case using Cons by simp
qed

lemma replace_no_head: "tok \<noteq> [] \<Longrightarrow> hd tok \<notin> set s \<Longrightarrow> replace tok new s = s"
proof (induction s)
  case Nil
  then show ?case by simp
next
  case (Cons c cs)
  then have "\<not> prefix tok (c # cs)" by (cases tok) auto
  then show ?case using Cons by simp
qed

section \<open>Claims\<close>

text \<open>
  C3, as the specification states it, fails: the code lower-cases first and replaces
  afterwards, and lower-casing can depend on the characters that the replacements remove.
  In \<open>A\<Sigma>(B\<close> (with the Greek capital sigma) the sigma stands before the parenthesis, so it
  is lower-cased to the final sigma; once the parenthesis is removed it stands before B, and
  the order of the specification lower-cases it to the small sigma.
\<close>

theorem make_id_order_counterexample:
  "make_id sigma_lower (''A'' @ sigma_capital @ ''(B'') = ''a'' @ sigma_final @ ''b''
   \<and> spec_make_id sigma_lower (''A'' @ sigma_capital @ ''(B'') = ''a'' @ sigma_small @ ''b''
   \<and> make_id sigma_lower (''A'' @ sigma_capital @ ''(B'')
       \<noteq> spec_make_id sigma_lower (''A'' @ sigma_capital @ ''(B'')"
proof -
  have l1: "sigma_lower (''A'' @ sigma_capital @ ''(B'') = ''a'' @ sigma_final @ ''(b''"
    by (simp add: sigma_lower_def sigma_capital_def sigma_small_def sigma_final_def
        starts_cased_def case_ignorable_def is_cased_def lower_char_def upper_letters_def
        lower_letters_def)
  have l2: "sigma_lower (''A'' @ sigma_capital @ ''B'') = ''a'' @ sigma_small @ ''b''"
    by (simp add: sigma_lower_def sigma_capital_def sigma_small_def sigma_final_def
        starts_cased_def case_ignorable_def is_cased_def lower_char_def upper_letters_def
        lower_letters_def)
  have s: "concat (map strip_char (''A'' @ sigma_capital @ ''(B'')) = ''A'' @ sigma_capital @ ''B''"
    by (simp add: strip_char_def sigma_capital_def)
  have a: "make_id sigma_lower (''A'' @ sigma_capital @ ''(B'') = ''a'' @ sigma_final @ ''b''"
    unfolding make_id_charwise l1 by (simp add: strip_char_def sigma_final_def)
  have b: "spec_make_id sigma_lower (''A'' @ sigma_capital @ ''(B'') = ''a'' @ sigma_small @ ''b''"
    unfolding spec_make_id_charwise s l2 by simp
  show ?thesis
    unfolding a b by (simp add: sigma_final_def sigma_small_def)
qed

text \<open>
  C3, amended. For every input string, the empty one included, \<open>make_id\<close> returns a
  string: the input lower-cased by \<^verbatim>\<open>str.lower\<close>, in which then every space and every
  \<open>/\<close> is replaced by \<open>-\<close> and every \<open>(\<close>, \<open>)\<close> and apostrophe is removed. For ASCII
  input this is the string the specification describes (the replacements first, the
  lower-casing last); in particular the empty string maps to the empty string,
  \<open>Raupapa Take (Priority Plan)\<close> to \<open>raupapa-take-priority-plan\<close> and \<open>Waka/Boat\<close> to
  \<open>waka-boat\<close>.
\<close>

theorem make_id_lowers_then_strips:
  "make_id lower name = concat (map strip_char (lower name))
   \<and> (ascii_lowering lower \<and> list_all is_ascii name
        \<longrightarrow> make_id lower name = spec_make_id lower name)
   \<and> (ascii_lowering lower
        \<longrightarrow> make_id lower [] = []
          \<and> make_id lower ''Raupapa Take (Priority Plan)'' = ''raupapa-take-priority-plan''
          \<and> make_id lower ''Waka/Boat'' = ''waka-boat'')"
proof -
  have "make_id lower [] = []
      \<and> make_id lower ''Raupapa Take (Priority Plan)'' = ''raupapa-take-priority-plan''
      \<and> make_id lower ''Waka/Boat'' = ''waka-boat''" if l: "ascii_lowering lower"
  proof -
    have "make_id lower [] = []"
      using make_id_on_ascii(1) [OF l, of "[]"] by simp
    moreover have
      "make_id lower ''Raupapa Take (Priority Plan)'' = ''raupapa-take-priority-plan''"
      using make_id_on_ascii(1) [OF l, of "''Raupapa Take (Priority Plan)''"]
      by (simp add: is_ascii_def strip_char_def lower_char_def upper_letters_def
          lower_letters_def)
    moreover have "make_id lower ''Waka/Boat'' = ''waka-boat''"
      using make_id_on_ascii(1) [OF l, of "''Waka/Boat''"]
      by (simp add: is_ascii_def strip_char_def lower_char_def upper_letters_def
          lower_letters_def)
    ultimately show ?thesis by simp
  qed
  moreover have "make_id lower name = spec_make_id lower name"
    if "ascii_lowering lower" "list_all is_ascii name"
    using that by (rule make_id_on_ascii(2))
  moreover have "make_id lower name = concat (map strip_char (lower name))"
    by (rule make_id_charwise)
  ultimately show ?thesis by blast
qed

theorem make_id_lowers_then_strips_witness:
  "list_all is_ascii ''Te Waka (A/B)''
   \<and> make_id sigma_lower ''Te Waka (A/B)'' = spec_make_id sigma_lower ''Te Waka (A/B)''
   \<and> make_id sigma_lower ''Raupapa Take (Priority Plan)'' = ''raupapa-take-priority-plan''
   \<and> make_id sigma_lower ''Waka/Boat'' = ''waka-boat''
   \<and> make_id sigma_lower [] = []"
proof -
  have h: "ascii_lowering sigma_lower"
    by (rule ascii_lowering_sigma_lower)
  have a: "list_all is_ascii ''Te Waka (A/B)''"
    by (simp add: is_ascii_def)
  have "make_id sigma_lower ''Te Waka (A/B)'' = spec_make_id sigma_lower ''Te Waka (A/B)''"
    by (rule make_id_lowers_then_strips [where lower = sigma_lower and name = "''Te Waka (A/B)''",
          THEN conjunct2, THEN conjunct1, THEN mp, OF conjI, OF h a])
  moreover have "make_id sigma_lower [] = []
      \<and> make_id sigma_lower ''Raupapa Take (Priority Plan)'' = ''raupapa-take-priority-plan''
      \<and> make_id sigma_lower ''Waka/Boat'' = ''waka-boat''"
    by (rule make_id_lowers_then_strips [where lower = sigma_lower,
          THEN conjunct2, THEN conjunct2, THEN mp, OF h])
  ultimately show ?thesis
    using a by simp
qed

text \<open>
  C7. A stage id of a Tool that is absent from the Stage lookup leaves no trace: the entry
  of the Tool is the entry it would have without that id. The badges of a Tool are the
  badges of the ids that resolve, in the order the Tool lists them. The renderer is a total
  function, so it returns a fragment for every Tool list and every lookup.
\<close>

theorem dangling_stage_reference_omitted:
  assumes "stages_lookup sid = None"
  shows "tool_entry title stages_lookup (tool\<lparr>stages_tool := xs @ sid # ys\<rparr>)
           = tool_entry title stages_lookup (tool\<lparr>stages_tool := xs @ ys\<rparr>)
         \<and> stage_badges stages_lookup (stages_tool tool)
           = concat (map (\<lambda>s. stage_badge (the (stages_lookup s)))
                      (filter (\<lambda>s. stages_lookup s \<noteq> None) (stages_tool tool)))
         \<and> build_tools_html title tools stages_lookup
           = tools_section (concat (map (tool_entry title stages_lookup) tools))"
proof -
  have "stage_badges stages_lookup (xs @ sid # ys) = stage_badges stages_lookup (xs @ ys)"
    using assms by (simp add: stage_badges_concat)
  then have "tool_entry title stages_lookup (tool\<lparr>stages_tool := xs @ sid # ys\<rparr>)
           = tool_entry title stages_lookup (tool\<lparr>stages_tool := xs @ ys\<rparr>)"
    by (simp add: tool_entry_def tool_block_def)
  then show ?thesis
    by (simp add: stage_badges_concat build_tools_html_def tools_loop_concat)
qed

theorem dangling_stage_reference_omitted_witness:
  "make_lookup id_stage [example_stage] ''s9'' = None
   \<and> tool_entry ascii_title (make_lookup id_stage [example_stage])
        (example_tool\<lparr>stages_tool := [''s1'', ''s9'']\<rparr>)
      = tool_entry ascii_title (make_lookup id_stage [example_stage]) (example_tool\<lparr>stages_tool := [''s1'']\<rparr>)
   \<and> stage_badges (make_lookup id_stage [example_stage]) [''s1'', ''s9'']
      = stage_badge example_stage"
proof -
  have h: "make_lookup id_stage [example_stage] ''s9'' = None"
    by (simp add: make_lookup_def example_stage_def)
  have s: "make_lookup id_stage [example_stage] ''s1'' = Some example_stage"
    by (simp add: make_lookup_def example_stage_def)
  show ?thesis
    using h s dangling_stage_reference_omitted
      [where stages_lookup = "make_lookup id_stage [example_stage]" and sid = "''s9''"
         and tool = "example_tool\<lparr>stages_tool := [''s1'', ''s9'']\<rparr>"
         and xs = "[''s1'']" and ys = "[]" and tools = "[]"]
    by simp
qed

text \<open>
  C4, as the specification states it, fails: the label is made by \<^verbatim>\<open>str.title\<close>, which
  does more than capitalize the words that the hyphens separate. It upper-cases a letter
  wherever the character before it is not a letter, so the id \<open>3d-model\<close> is labelled
  \<open>3D Model\<close>, where capitalizing its two words gives \<open>3d Model\<close>.
\<close>

theorem muscle_label_counterexample:
  \<open>muscle_link ascii_title ''3d-model''
     = ''<a href="#muscle-3d-model" class="muscle-link">3D Model</a> ''
   \<and> spec_label ''3d-model'' = ''3d Model''
   \<and> ascii_title (replace ''-'' '' '' ''3d-model'') \<noteq> spec_label ''3d-model''\<close>
  by (simp add: muscle_link_def ascii_title_def spec_label_def capitalize_word_def
      upper_char_def lower_char_def is_cased_def upper_letters_def lower_letters_def)

text \<open>
  C4, amended. For every Tool and every Muscle id it lists, the Tools Renderer emits one
  link, in the listed order: its target is the anchor \<open>#muscle-\<close> followed by the id, and its
  label is the id with every hyphen replaced by a space, put through \<^verbatim>\<open>str.title\<close>. The
  links depend on the Tool alone: the renderer has no Muscle lookup, and the Stage lookup
  only decides the badges. For an ASCII id the label has the length of the id and, place by
  place, a space for a hyphen, the lower-case form of a character that follows a letter,
  and the upper-case form of any other character; so a word made of letters gets its first
  letter in upper case and the others in lower case, a letter after a digit is upper-cased
  too, and the label of two parts joined by a hyphen is the two labels joined by a space.
\<close>

theorem muscle_links_title_case:
  \<open>muscle_links title ids = concat (map (muscle_link title) ids)
   \<and> muscle_link title m
       = ''<a href="#muscle-'' @ m @ ''" class="muscle-link">'' @ title (replace ''-'' '' '' m) @ ''</a> ''
   \<and> replace ''-'' '' '' m = map (\<lambda>c. if c = CHR ''-'' then CHR '' '' else c) m
   \<and> tool_entry title stages_lookup tool
       = tool_block tool
           (case truthy (video_tool tool) of Some url \<Rightarrow> tool_video_block url | None \<Rightarrow> [])
           (stage_badges stages_lookup (stages_tool tool))
           (concat (map (muscle_link title) (muscles_tool tool)))
   \<and> (ascii_titling title \<and> list_all is_ascii m
        \<longrightarrow> length (title (replace ''-'' '' '' m)) = length m
          \<and> (\<forall>i<length m.
                title (replace ''-'' '' '' m) ! i
                  = (if m ! i = CHR ''-'' then CHR '' ''
                     else if 0 < i \<and> is_cased (m ! (i - 1)) then lower_char (m ! i)
                     else upper_char (m ! i))))
   \<and> (ascii_titling title \<and> list_all is_cased (c # w)
        \<longrightarrow> title (replace ''-'' '' '' (c # w)) = upper_char c # map lower_char w)
   \<and> (ascii_titling title \<and> list_all is_ascii a \<and> list_all is_ascii b
        \<longrightarrow> title (replace ''-'' '' '' (a @ ''-'' @ b))
            = title (replace ''-'' '' '' a) @ '' '' @ title (replace ''-'' '' '' b))\<close>
proof -
  have f1: "muscle_links title ids = concat (map (muscle_link title) ids)"
    by (rule muscle_links_concat)
  have f2: \<open>muscle_link title m
       = ''<a href="#muscle-'' @ m @ ''" class="muscle-link">'' @ title (replace ''-'' '' '' m) @ ''</a> ''\<close>
    by (simp add: muscle_link_def)
  have f3: "replace ''-'' '' '' m = map (\<lambda>c. if c = CHR ''-'' then CHR '' '' else c) m"
    by (rule replace_hyphen)
  have f4: "tool_entry title stages_lookup tool
       = tool_block tool
           (case truthy (video_tool tool) of Some url \<Rightarrow> tool_video_block url | None \<Rightarrow> [])
           (stage_badges stages_lookup (stages_tool tool))
           (concat (map (muscle_link title) (muscles_tool tool)))"
    by (simp add: tool_entry_def muscle_links_concat)
  have f5: "ascii_titling title \<and> list_all is_ascii m
        \<longrightarrow> length (title (replace ''-'' '' '' m)) = length m
          \<and> (\<forall>i<length m.
                title (replace ''-'' '' '' m) ! i
                  = (if m ! i = CHR ''-'' then CHR '' ''
                     else if 0 < i \<and> is_cased (m ! (i - 1)) then lower_char (m ! i)
                     else upper_char (m ! i)))"
  proof (intro impI conjI allI)
    assume h: "ascii_titling title \<and> list_all is_ascii m"
    then show "length (title (replace ''-'' '' '' m)) = length m"
      by (simp add: label_on_ascii title_from_length)
    fix i
    assume "i < length m"
    then show "title (replace ''-'' '' '' m) ! i
                  = (if m ! i = CHR ''-'' then CHR '' ''
                     else if 0 < i \<and> is_cased (m ! (i - 1)) then lower_char (m ! i)
                     else upper_char (m ! i))"
      using h label_nth [of title m i] by simp
  qed
  have f6: "ascii_titling title \<and> list_all is_cased (c # w)
        \<longrightarrow> title (replace ''-'' '' '' (c # w)) = upper_char c # map lower_char w"
  proof
    assume h: "ascii_titling title \<and> list_all is_cased (c # w)"
    then have ascii: "list_all is_ascii (c # w)"
      by (auto simp: list_all_iff dest: cased_is_ascii)
    have "map (\<lambda>c. if c = CHR ''-'' then CHR '' '' else c) w = w"
      using h by (induction w) (auto dest: hyphen_not_cased)
    then show "title (replace ''-'' '' '' (c # w)) = upper_char c # map lower_char w"
      using h label_on_ascii [of title "c # w"] ascii
      by (auto simp: title_from_cased dest: hyphen_not_cased)
  qed
  have f7: "ascii_titling title \<and> list_all is_ascii a \<and> list_all is_ascii b
        \<longrightarrow> title (replace ''-'' '' '' (a @ ''-'' @ b))
            = title (replace ''-'' '' '' a) @ '' '' @ title (replace ''-'' '' '' b)"
  proof
    assume h: "ascii_titling title \<and> list_all is_ascii a \<and> list_all is_ascii b"
    then have "list_all is_ascii (a @ ''-'' @ b)"
      by (simp add: is_ascii_def)
    then show "title (replace ''-'' '' '' (a @ ''-'' @ b))
            = title (replace ''-'' '' '' a) @ '' '' @ title (replace ''-'' '' '' b)"
      using h label_on_ascii [of title "a @ ''-'' @ b"] label_on_ascii [of title a]
        label_on_ascii [of title b]
      by (simp add: title_from_space)
  qed
  show ?thesis
    by (intro conjI) (fact f1, fact f2, fact f3, fact f4, fact f5, fact f6, fact f7)
qed

theorem muscle_links_title_case_witness:
  \<open>list_all is_ascii ''3d-model''
   \<and> ascii_title (replace ''-'' '' '' ''3d-model'') ! 1 = CHR ''D''
   \<and> length (ascii_title (replace ''-'' '' '' ''3d-model'')) = 8
   \<and> list_all is_cased ''mUSCLE''
   \<and> ascii_title (replace ''-'' '' '' ''mUSCLE'') = ''Muscle''
   \<and> list_all is_ascii ''systems'' \<and> list_all is_ascii ''thinking''
   \<and> ascii_title (replace ''-'' '' '' ''systems-thinking'') = ''Systems Thinking''
   \<and> muscle_links ascii_title [''systems-thinking'', ''no-such-muscle'']
       = ''<a href="#muscle-systems-thinking" class="muscle-link">Systems Thinking</a> '' @
         ''<a href="#muscle-no-such-muscle" class="muscle-link">No Such Muscle</a> ''\<close>
proof -
  have t: "ascii_titling ascii_title"
    by (simp add: ascii_titling_def)
  have a1: "list_all is_ascii ''3d-model''"
    by (simp add: is_ascii_def)
  note n = muscle_links_title_case [where title = ascii_title and m = "''3d-model''",
      THEN conjunct2, THEN conjunct2, THEN conjunct2, THEN conjunct2, THEN conjunct1,
      THEN mp, OF conjI, OF t a1]
  have len: "length (ascii_title (replace ''-'' '' '' ''3d-model'')) = 8"
    using n [THEN conjunct1] by simp
  have "(1::nat) < length ''3d-model''" by simp
  then have "ascii_title (replace ''-'' '' '' ''3d-model'') ! 1
      = (if ''3d-model'' ! 1 = CHR ''-'' then CHR '' ''
         else if 0 < (1::nat) \<and> is_cased (''3d-model'' ! (1 - 1)) then lower_char (''3d-model'' ! 1)
         else upper_char (''3d-model'' ! 1))"
    using n [THEN conjunct2, THEN spec, of 1] by blast
  then have d: "ascii_title (replace ''-'' '' '' ''3d-model'') ! 1 = CHR ''D''"
    by (simp add: is_cased_def upper_char_def upper_letters_def lower_letters_def)
  have k: "list_all is_cased ''mUSCLE''"
    by (simp add: is_cased_def upper_letters_def lower_letters_def)
  have w: "ascii_title (replace ''-'' '' '' ''mUSCLE'') = ''Muscle''"
    using muscle_links_title_case [where title = ascii_title and c = "CHR ''m''"
        and w = "''USCLE''", THEN conjunct2, THEN conjunct2, THEN conjunct2, THEN conjunct2,
        THEN conjunct2, THEN conjunct1, THEN mp, OF conjI, OF t k]
    by (simp add: upper_char_def lower_char_def upper_letters_def lower_letters_def)
  have c7: "ascii_title (replace ''-'' '' '' (a @ ''-'' @ b))
       = ascii_title (replace ''-'' '' '' a) @ '' '' @ ascii_title (replace ''-'' '' '' b)"
    if "list_all is_ascii a" "list_all is_ascii b" for a b
    using muscle_links_title_case [where title = ascii_title and a = a and b = b,
        THEN conjunct2, THEN conjunct2, THEN conjunct2, THEN conjunct2, THEN conjunct2,
        THEN conjunct2, THEN mp] t that
    by blast
  have words: "ascii_title ''systems'' = ''Systems''" "ascii_title ''thinking'' = ''Thinking''"
    "ascii_title ''no'' = ''No''" "ascii_title ''such'' = ''Such''"
    "ascii_title ''muscle'' = ''Muscle''"
    by (simp_all add: ascii_title_def upper_char_def lower_char_def is_cased_def
        upper_letters_def lower_letters_def)
  have a2: "list_all is_ascii ''systems''" "list_all is_ascii ''thinking''"
    "list_all is_ascii ''no''" "list_all is_ascii ''such''" "list_all is_ascii ''muscle''"
    "list_all is_ascii ''such-muscle''"
    by (simp_all add: is_ascii_def)
  have st: "ascii_title (replace ''-'' '' '' ''systems-thinking'') = ''Systems Thinking''"
    using c7 [OF a2(1) a2(2)] words by simp
  have "ascii_title (replace ''-'' '' '' ''such-muscle'') = ''Such Muscle''"
    using c7 [OF a2(4) a2(5)] words by simp
  then have nsm: "ascii_title (replace ''-'' '' '' ''no-such-muscle'') = ''No Such Muscle''"
    using c7 [OF a2(3) a2(6)] words by simp
  have l: "muscle_links ascii_title [''systems-thinking'', ''no-such-muscle'']
       = muscle_link ascii_title ''systems-thinking'' @ muscle_link ascii_title ''no-such-muscle''"
    using muscle_links_title_case [where title = ascii_title
        and ids = "[''systems-thinking'', ''no-such-muscle'']", THEN conjunct1]
    by simp
  have l2: \<open>muscle_link ascii_title m
       = ''<a href="#muscle-'' @ m @ ''" class="muscle-link">'' @ ascii_title (replace ''-'' '' '' m) @ ''</a> ''\<close>
    for m
    by (rule muscle_links_title_case [where title = ascii_title and m = m, THEN conjunct2,
          THEN conjunct1])
  show ?thesis
    using a1 d len k w a2 st nsm l l2 [of "''systems-thinking''"] l2 [of "''no-such-muscle''"]
    by simp
qed



text \<open>
  C5. The Stage Overlay Projector serializes a list with one record per Stage, in the order
  of the Stage list. The record of a Stage carries its id, both names, both descriptive
  fields, its reflection questions and its hotspot as they are, and under \<open>tools\<close> one
  \<open>(id, name)\<close> pair for each listed tool id that is in the tool lookup, in the listed
  order, with the name the lookup gives; the other ids are dropped.
\<close>

theorem overlay_one_record_per_stage:
  "build_stage_overlay_data dumps stages tools_lookup
     = dumps (JList (map (stage_record tools_lookup) stages))
   \<and> stage_record tools_lookup stage
     = JDict [(''id'', JString (id_stage stage)),
              (''name_maori'', JString (name_maori stage)),
              (''name_english'', JString (name_english stage)),
              (''as_stage'', JString (as_stage stage)),
              (''as_state'', JString (as_state stage)),
              (''reflection_questions'', JList (map JString (reflection_questions stage))),
              (''tools'',
                JList (map (\<lambda>t. JDict [(''id'', JString t),
                                         (''name'', JString (name_tool (the (tools_lookup t))))])
                         (filter (\<lambda>t. t \<in> dom tools_lookup) (tools_stage stage)))),
              (''hotspot'', JRaw (hotspot stage))]"
proof -
  have "(\<lambda>t. t \<in> dom tools_lookup) = (\<lambda>t. tools_lookup t \<noteq> None)"
    by (simp add: dom_def)
  then show ?thesis
    by (simp add: build_stage_overlay_data_def stage_data_map stage_record_def
        stage_tool_pairs_resolved)
qed

text \<open>
  C9. An optional field that holds the empty string is rendered as if its key were absent:
  the Intro and a Tool with the video \<open>""\<close> get no video block, and a Source Item with
  an empty link, author, role or description is rendered as the Item without that key. The
  fields are tested by their truth value.
\<close>

theorem empty_optional_field_as_absent:
  "build_intro_html (intro\<lparr>video_intro := Some []\<rparr>) = build_intro_html (intro\<lparr>video_intro := None\<rparr>)
   \<and> build_intro_html (intro\<lparr>video_intro := Some []\<rparr>)
       = intro_section intro (concat (map section_block (sections intro))) []
   \<and> tool_entry title stages_lookup (tool\<lparr>video_tool := Some []\<rparr>)
       = tool_entry title stages_lookup (tool\<lparr>video_tool := None\<rparr>)
   \<and> tool_entry title stages_lookup (tool\<lparr>video_tool := Some []\<rparr>)
       = tool_block tool [] (stage_badges stages_lookup (stages_tool tool))
           (muscle_links title (muscles_tool tool))
   \<and> item_li (item\<lparr>link_item := Some []\<rparr>) = item_li (item\<lparr>link_item := None\<rparr>)
   \<and> item_li (item\<lparr>author_item := Some []\<rparr>) = item_li (item\<lparr>author_item := None\<rparr>)
   \<and> item_li (item\<lparr>role_item := Some []\<rparr>) = item_li (item\<lparr>role_item := None\<rparr>)
   \<and> item_li (item\<lparr>description_item := Some []\<rparr>) = item_li (item\<lparr>description_item := None\<rparr>)"
proof -
  have t: "truthy (Some []) = None" "truthy None = None"
    by (simp_all add: truthy_def)
  have "build_intro_html (intro\<lparr>video_intro := Some []\<rparr>)
       = intro_section intro (concat (map section_block (sections intro))) []"
    and "build_intro_html (intro\<lparr>video_intro := None\<rparr>)
       = intro_section intro (concat (map section_block (sections intro))) []"
    by (simp_all add: build_intro_html_def t fold_append_concat intro_section_def)
  moreover have "tool_entry title stages_lookup (tool\<lparr>video_tool := Some []\<rparr>)
       = tool_block tool [] (stage_badges stages_lookup (stages_tool tool))
           (muscle_links title (muscles_tool tool))"
    and "tool_entry title stages_lookup (tool\<lparr>video_tool := None\<rparr>)
       = tool_block tool [] (stage_badges stages_lookup (stages_tool tool))
           (muscle_links title (muscles_tool tool))"
    by (simp_all add: tool_entry_def t tool_block_def)
  moreover have "item_li (item\<lparr>link_item := Some []\<rparr>) = item_li (item\<lparr>link_item := None\<rparr>)"
    by (simp add: item_li_def name_and_detail_def t split: option.splits)
  moreover have "item_li (item\<lparr>author_item := Some []\<rparr>) = item_li (item\<lparr>author_item := None\<rparr>)"
    by (simp add: item_li_def name_and_detail_def t split: option.splits)
  moreover have "item_li (item\<lparr>role_item := Some []\<rparr>) = item_li (item\<lparr>role_item := None\<rparr>)"
    by (simp add: item_li_def name_and_detail_def t split: option.splits)
  moreover have "item_li (item\<lparr>description_item := Some []\<rparr>) = item_li (item\<lparr>description_item := None\<rparr>)"
    by (simp add: item_li_def name_and_detail_def t split: option.splits)
  ultimately show ?thesis by simp
qed





text \<open>
  C1, as the specification states it, fails: an Item with a \<open>title\<close> key, no author and a
  role is rendered without any detail, where the priority order would show the role.
\<close>

theorem title_item_detail_counterexample:
  "name_and_detail example_reading = Inr (''T'', [])
   \<and> item_li example_reading = Inr ''<li>T</li>''
   \<and> spec_detail example_reading = '' '' @ em_dash @ '' R''
   \<and> name_and_detail example_reading \<noteq> Inr (''T'', spec_detail example_reading)"
  by (simp add: example_reading_def name_and_detail_def item_li_def spec_detail_def truthy_def)

text \<open>
  C1, amended. For an Item without a \<open>title\<close> key, named by its \<open>name\<close> key, the detail is
  resolved by the priority order author, role, description: the first that is there wins
  and at most one is shown. For an Item with a \<open>title\<close> key the detail is the author when
  there is one and nothing otherwise; role and description are not looked at. In both cases
  the detail follows the name, or the link that holds the name.
\<close>

theorem detail_priority_by_item_kind:
  \<open>(title_item item = None \<and> name_item item = Some n
       \<longrightarrow> name_and_detail item = Inr (n, spec_detail item))
   \<and> (title_item item = Some t
       \<longrightarrow> name_and_detail item
           = Inr (t, case truthy (author_item item) of
                       Some a \<Rightarrow> '' '' @ em_dash @ '' '' @ a
                     | None \<Rightarrow> [])
         \<and> name_and_detail (item\<lparr>role_item := r, description_item := d\<rparr>) = name_and_detail item)
   \<and> (name_and_detail item = Inr (name, detail)
       \<longrightarrow> item_li item
           = Inr (case truthy (link_item item) of
                    Some link \<Rightarrow> ''<li><a href="'' @ link @ ''" target="_blank">'' @ name @ ''</a>'' @ detail @ ''</li>''
                  | None \<Rightarrow> ''<li>'' @ name @ detail @ ''</li>''))\<close>
  by (simp add: name_and_detail_def spec_detail_def item_li_def split: option.splits)

theorem detail_priority_by_item_kind_witness:
  "title_item example_person = None \<and> name_item example_person = Some ''N''
   \<and> name_and_detail example_person = Inr (''N'', '' '' @ em_dash @ '' R'')
   \<and> item_li example_person = Inr (''<li>N '' @ em_dash @ '' R</li>'')
   \<and> title_item (example_person\<lparr>title_item := Some ''T'', author_item := Some ''A''\<rparr>) = Some ''T''
   \<and> name_and_detail (example_person\<lparr>title_item := Some ''T'', author_item := Some ''A''\<rparr>)
       = Inr (''T'', '' '' @ em_dash @ '' A'')"
proof -
  have h: "title_item example_person = None \<and> name_item example_person = Some ''N''"
    by (simp add: example_person_def)
  have d: "spec_detail example_person = '' '' @ em_dash @ '' R''"
    by (simp add: example_person_def spec_detail_def truthy_def)
  have a: "name_and_detail example_person = Inr (''N'', '' '' @ em_dash @ '' R'')"
    using detail_priority_by_item_kind [where item = example_person and n = "''N''",
        THEN conjunct1] h d
    by simp
  have l: "truthy (link_item example_person) = None"
    by (simp add: example_person_def truthy_def)
  have b: "item_li example_person = Inr (''<li>N '' @ em_dash @ '' R</li>'')"
    using detail_priority_by_item_kind [where item = example_person and name = "''N''"
        and detail = "'' '' @ em_dash @ '' R''", THEN conjunct2, THEN conjunct2] a l
    by simp
  have h2: "title_item (example_person\<lparr>title_item := Some ''T'', author_item := Some ''A''\<rparr>)
       = Some ''T''"
    by simp
  have "name_and_detail (example_person\<lparr>title_item := Some ''T'', author_item := Some ''A''\<rparr>)
       = Inr (''T'', '' '' @ em_dash @ '' A'')"
    using detail_priority_by_item_kind
      [where item = "example_person\<lparr>title_item := Some ''T'', author_item := Some ''A''\<rparr>"
        and t = "''T''", THEN conjunct2, THEN conjunct1] h2
    by (simp add: truthy_def)
  then show ?thesis
    using h a b by simp
qed

text \<open>
  C6, as the specification states it, fails: a template that lacks the Tools token can
  still end up holding the Tools fragment. The second substitution runs on the result of
  the first, so a token that the Intro fragment brings in (here as the title of the Intro)
  is replaced too.
\<close>

theorem absent_token_content_counterexample:
  "\<not> sublist ''{{TOOLS_SECTION}}'' ''{{INTRO_SECTION}}''
   \<and> build_html ascii_title example_dumps ''{{INTRO_SECTION}}'' example_intro no_stages [] example_muscles
        example_no_sources
      = Inr (intro_section
               (example_intro\<lparr>title_intro := build_tools_html ascii_title [] (make_lookup id_stage no_stages)\<rparr>)
               [] [])
   \<and> sublist (build_tools_html ascii_title [] (make_lookup id_stage no_stages))
        (intro_section
               (example_intro\<lparr>title_intro := build_tools_html ascii_title [] (make_lookup id_stage no_stages)\<rparr>)
               [] [])"
proof -
  define A where
    \<open>A = nl @ ''    <section id="introduction" class="section section-intro">'' @ nl @
         ''        <div class="container">'' @ nl @ ''            <h1>''\<close>
  define B where
    \<open>B = ''</h1>'' @ nl @
         ''            <p class="subtitle">S</p>'' @ nl @
         ''            <p class="hook">H</p>'' @ nl @
         ''            '' @ nl @
         ''            '' @ nl @
         ''            <div class="attribution">'' @ nl @
         ''                <p>P</p>'' @ nl @
         ''                <p>O</p>'' @ nl @
         ''            </div>'' @ nl @
         ''        </div>'' @ nl @
         ''    </section>'' @ nl @ ''    ''\<close>
  define T where "T = build_tools_html ascii_title [] (make_lookup id_stage no_stages)"
  have shape: "intro_section (example_intro\<lparr>title_intro := X\<rparr>) [] [] = A @ X @ B" for X
    by (simp add: intro_section_def example_intro_def A_def B_def)
  have intro_html: "build_intro_html example_intro = A @ ''{{TOOLS_SECTION}}'' @ B"
    using shape [of "''{{TOOLS_SECTION}}''"]
    by (simp add: build_intro_html_def example_intro_def truthy_def)
  have brace: "CHR ''{'' \<notin> set A" "CHR ''{'' \<notin> set B" "CHR ''{'' \<notin> set T"
    by (simp_all add: A_def B_def T_def nl_def build_tools_html_def tools_section_def)
  have sources: "build_sources_html example_no_sources
                   = Inr (sources_section example_no_sources [])"
    by (simp add: build_sources_html_def example_no_sources_def)
  have step1: "replace ''{{INTRO_SECTION}}'' (A @ ''{{TOOLS_SECTION}}'' @ B) ''{{INTRO_SECTION}}''
                 = A @ ''{{TOOLS_SECTION}}'' @ B"
    using replace_at_token [of "''{{INTRO_SECTION}}''" "[]" _ "[]"] by simp
  have step2: "replace ''{{TOOLS_SECTION}}'' T (A @ ''{{TOOLS_SECTION}}'' @ B) = A @ T @ B"
    using replace_at_token [of "''{{TOOLS_SECTION}}''" A T B]
      replace_no_head [of "''{{TOOLS_SECTION}}''" B T] brace
    by simp
  have rest: "replace tok new (A @ T @ B) = A @ T @ B" if "tok \<noteq> []" "hd tok = CHR ''{''"
    for tok new
    using replace_no_head [of tok "A @ T @ B" new] that brace by simp
  have "assemble ''{{INTRO_SECTION}}'' (A @ ''{{TOOLS_SECTION}}'' @ B) T m s d = A @ T @ B"
    for m s d
    unfolding assemble_def step1 step2 by (simp add: rest)
  then have "build_html ascii_title example_dumps ''{{INTRO_SECTION}}'' example_intro no_stages []
        example_muscles example_no_sources = Inr (A @ T @ B)"
    by (simp add: build_html_unfold sources intro_html T_def)
  moreover have "\<not> sublist ''{{TOOLS_SECTION}}'' ''{{INTRO_SECTION}}''"
    by (simp add: sublist_Cons_right)
  moreover have "sublist T (A @ T @ B)"
    by (simp add: sublist_def) blast
  ultimately show ?thesis
    using shape [of T] by (simp add: T_def)
qed



text \<open>
  C6, amended. The Assembler applies five substitutions one after the other, for the Intro,
  Tools, Muscles, Sources and stage-data tokens, each to the result of the one before (the
  first to the template). Each is global: the document is cut at every occurrence of the
  token, found from the left, and the pieces, none of which holds the token, are joined
  again with the same output. A substitution whose token does not occur in the document it
  is applied to leaves that document as it is, and the result does not depend on the output
  for that token. The assembly gives a document for every template, whenever the Sources
  Renderer gives a fragment.
\<close>

theorem assembler_stepwise_global_substitution:
  "assemble template i t m s d
     = replace ''{{STAGE_DATA}}'' d
         (replace ''{{SOURCES_SECTION}}'' s
           (replace ''{{MUSCLES_SECTION}}'' m
             (replace ''{{TOOLS_SECTION}}'' t
               (replace ''{{INTRO_SECTION}}'' i template))))
   \<and> (tok \<noteq> []
        \<longrightarrow> join tok (pieces tok doc) = doc
          \<and> list_all (\<lambda>p. \<not> sublist tok p) (pieces tok doc)
          \<and> replace tok new doc = join new (pieces tok doc))
   \<and> (tok \<noteq> [] \<and> \<not> sublist tok doc \<longrightarrow> replace tok new doc = doc)
   \<and> (\<not> sublist ''{{INTRO_SECTION}}'' template
        \<longrightarrow> assemble template i t m s d = assemble template i' t m s d)
   \<and> (\<not> sublist ''{{TOOLS_SECTION}}'' (replace ''{{INTRO_SECTION}}'' i template)
        \<longrightarrow> assemble template i t m s d = assemble template i t' m s d)
   \<and> (\<not> sublist ''{{MUSCLES_SECTION}}''
            (replace ''{{TOOLS_SECTION}}'' t (replace ''{{INTRO_SECTION}}'' i template))
        \<longrightarrow> assemble template i t m s d = assemble template i t m' s d)
   \<and> (\<not> sublist ''{{SOURCES_SECTION}}''
            (replace ''{{MUSCLES_SECTION}}'' m
              (replace ''{{TOOLS_SECTION}}'' t (replace ''{{INTRO_SECTION}}'' i template)))
        \<longrightarrow> assemble template i t m s d = assemble template i t m s' d)
   \<and> (\<not> sublist ''{{STAGE_DATA}}''
            (replace ''{{SOURCES_SECTION}}'' s
              (replace ''{{MUSCLES_SECTION}}'' m
                (replace ''{{TOOLS_SECTION}}'' t (replace ''{{INTRO_SECTION}}'' i template))))
        \<longrightarrow> assemble template i t m s d = assemble template i t m s d')
   \<and> (build_sources_html sources = Inr s
        \<longrightarrow> build_html title dumps template intro stages tools muscles sources
            = Inr (assemble template (build_intro_html intro)
                     (build_tools_html title tools (make_lookup id_stage stages))
                     (build_muscles_html muscles (make_lookup id_tool tools))
                     s
                     (build_stage_overlay_data dumps stages (make_lookup id_tool tools))))"
proof -
  have "assemble template i t m s d = assemble template i' t m s d"
    if "\<not> sublist ''{{INTRO_SECTION}}'' template"
    using that by (simp add: assemble_def replace_absent)
  moreover have "assemble template i t m s d = assemble template i t' m s d"
    if "\<not> sublist ''{{TOOLS_SECTION}}'' (replace ''{{INTRO_SECTION}}'' i template)"
    using that by (simp add: assemble_def replace_absent)
  moreover have "assemble template i t m s d = assemble template i t m' s d"
    if "\<not> sublist ''{{MUSCLES_SECTION}}''
            (replace ''{{TOOLS_SECTION}}'' t (replace ''{{INTRO_SECTION}}'' i template))"
    using that by (simp add: assemble_def replace_absent)
  moreover have "assemble template i t m s d = assemble template i t m s' d"
    if "\<not> sublist ''{{SOURCES_SECTION}}''
            (replace ''{{MUSCLES_SECTION}}'' m
              (replace ''{{TOOLS_SECTION}}'' t (replace ''{{INTRO_SECTION}}'' i template)))"
    using that by (simp add: assemble_def replace_absent)
  moreover have "assemble template i t m s d = assemble template i t m s d'"
    if "\<not> sublist ''{{STAGE_DATA}}''
            (replace ''{{SOURCES_SECTION}}'' s
              (replace ''{{MUSCLES_SECTION}}'' m
                (replace ''{{TOOLS_SECTION}}'' t (replace ''{{INTRO_SECTION}}'' i template))))"
    using that by (simp add: assemble_def replace_absent)
  moreover have "build_html title dumps template intro stages tools muscles sources
            = Inr (assemble template (build_intro_html intro)
                     (build_tools_html title tools (make_lookup id_stage stages))
                     (build_muscles_html muscles (make_lookup id_tool tools))
                     s
                     (build_stage_overlay_data dumps stages (make_lookup id_tool tools)))"
    if "build_sources_html sources = Inr s"
    using that by (simp add: build_html_unfold)
  moreover have "assemble template i t m s d
     = replace ''{{STAGE_DATA}}'' d
         (replace ''{{SOURCES_SECTION}}'' s
           (replace ''{{MUSCLES_SECTION}}'' m
             (replace ''{{TOOLS_SECTION}}'' t
               (replace ''{{INTRO_SECTION}}'' i template))))"
    by (simp add: assemble_def)
  moreover have "join tok (pieces tok doc) = doc
          \<and> list_all (\<lambda>p. \<not> sublist tok p) (pieces tok doc)
          \<and> replace tok new doc = join new (pieces tok doc)" if "tok \<noteq> []"
    using that join_pieces pieces_clean replace_join_pieces by simp
  moreover have "replace tok new doc = doc" if "tok \<noteq> []" "\<not> sublist tok doc"
    using that by (rule replace_absent)
  ultimately show ?thesis by blast
qed



theorem assembler_stepwise_global_substitution_witness:
  "''{{A}}'' \<noteq> []
   \<and> pieces ''{{A}}'' ''x{{A}}y{{A}}'' = [''x'', ''y'', []]
   \<and> replace ''{{A}}'' ''N'' ''x{{A}}y{{A}}'' = ''xNyN''
   \<and> \<not> sublist ''{{A}}'' ''x{A}y''
   \<and> replace ''{{A}}'' ''N'' ''x{A}y'' = ''x{A}y''
   \<and> \<not> sublist ''{{INTRO_SECTION}}'' ''plain''
   \<and> \<not> sublist ''{{TOOLS_SECTION}}'' (replace ''{{INTRO_SECTION}}'' ''I'' ''plain'')
   \<and> assemble ''plain'' ''I'' ''T'' ''M'' ''S'' ''D'' = assemble ''plain'' ''J'' ''U'' ''M'' ''S'' ''D''
   \<and> build_sources_html example_no_sources = Inr (sources_section example_no_sources [])
   \<and> build_html ascii_title example_dumps ''{{INTRO_SECTION}}{{INTRO_SECTION}}'' example_intro no_stages []
        example_muscles example_no_sources
       = Inr (assemble ''{{INTRO_SECTION}}{{INTRO_SECTION}}'' (build_intro_html example_intro)
                (build_tools_html ascii_title [] (make_lookup id_stage no_stages))
                (build_muscles_html example_muscles (make_lookup id_tool []))
                (sources_section example_no_sources [])
                (build_stage_overlay_data example_dumps no_stages (make_lookup id_tool [])))"
proof -
  have h1: "''{{A}}'' \<noteq> []" by simp
  have p: "pieces ''{{A}}'' ''x{{A}}y{{A}}'' = [''x'', ''y'', []]" by simp
  have g: "replace ''{{A}}'' ''N'' ''x{{A}}y{{A}}'' = join ''N'' (pieces ''{{A}}'' ''x{{A}}y{{A}}'')"
    using assembler_stepwise_global_substitution
      [where tok = "''{{A}}''" and doc = "''x{{A}}y{{A}}''" and new = "''N''",
        THEN conjunct2, THEN conjunct1, THEN mp, OF h1]
    by (rule conjunct2 [THEN conjunct2])
  have h2: "''{{A}}'' \<noteq> [] \<and> \<not> sublist ''{{A}}'' ''x{A}y''"
    by (simp add: sublist_Cons_right)
  have a: "replace ''{{A}}'' ''N'' ''x{A}y'' = ''x{A}y''"
    by (rule assembler_stepwise_global_substitution
      [where tok = "''{{A}}''" and doc = "''x{A}y''" and new = "''N''",
        THEN conjunct2, THEN conjunct2, THEN conjunct1, THEN mp, OF h2])
  have h3: "\<not> sublist ''{{INTRO_SECTION}}'' ''plain''"
    by (simp add: sublist_Cons_right)
  have i: "assemble ''plain'' ''I'' ''T'' ''M'' ''S'' ''D'' = assemble ''plain'' ''J'' ''T'' ''M'' ''S'' ''D''"
    by (rule assembler_stepwise_global_substitution
      [where template = "''plain''" and i = "''I''" and i' = "''J''",
        THEN conjunct2, THEN conjunct2, THEN conjunct2, THEN conjunct1, THEN mp, OF h3])
  have h4: "\<not> sublist ''{{TOOLS_SECTION}}'' (replace ''{{INTRO_SECTION}}'' ''J'' ''plain'')"
    "\<not> sublist ''{{TOOLS_SECTION}}'' (replace ''{{INTRO_SECTION}}'' ''I'' ''plain'')"
    by (simp_all add: sublist_Cons_right)
  have t: "assemble ''plain'' ''J'' ''T'' ''M'' ''S'' ''D'' = assemble ''plain'' ''J'' ''U'' ''M'' ''S'' ''D''"
    by (rule assembler_stepwise_global_substitution
      [where template = "''plain''" and i = "''J''" and t = "''T''" and t' = "''U''",
        THEN conjunct2, THEN conjunct2, THEN conjunct2, THEN conjunct2, THEN conjunct1,
        THEN mp, OF h4(1)])
  have h5: "build_sources_html example_no_sources = Inr (sources_section example_no_sources [])"
    by (simp add: build_sources_html_def example_no_sources_def)
  have b: "build_html ascii_title example_dumps ''{{INTRO_SECTION}}{{INTRO_SECTION}}'' example_intro no_stages []
        example_muscles example_no_sources
       = Inr (assemble ''{{INTRO_SECTION}}{{INTRO_SECTION}}'' (build_intro_html example_intro)
                (build_tools_html ascii_title [] (make_lookup id_stage no_stages))
                (build_muscles_html example_muscles (make_lookup id_tool []))
                (sources_section example_no_sources [])
                (build_stage_overlay_data example_dumps no_stages (make_lookup id_tool [])))"
    by (rule assembler_stepwise_global_substitution
      [where sources = example_no_sources and s = "sources_section example_no_sources []",
        THEN conjunct2, THEN conjunct2, THEN conjunct2, THEN conjunct2, THEN conjunct2,
        THEN conjunct2, THEN conjunct2, THEN conjunct2, THEN mp, OF h5])
  show ?thesis
    using h1 p g h2 a h3 h4 i t h5 b by simp
qed

end
